theory Spec2Isabelle
  imports Complex_Main "HOL-Library.Sublist"
begin

section \<open>The EWMA baseline predictor\<close>

text \<open>
  The predictor of the repository is the class given in the build plan
  (\<^verbatim>\<open>backend/app/ml/baseline.py\<close>):
  \<^verbatim>\<open>
  class BaselinePredictor:
      def __init__(self, alpha=0.3): self.alpha, self._ewma = alpha, {}
      def update_and_predict(self, symbol, price):
          prev = self._ewma.get(symbol, price)
          ewma = self.alpha*price + (1-self.alpha)*prev
          self._ewma[symbol] = ewma
          return ewma
  \<close>
  The object is a record, the dictionary \<^verbatim>\<open>_ewma\<close> a map from symbols, and the method
  returns its result together with the updated object. The number type is a parameter:
  the definitions only use \<open>*\<close>, \<open>+\<close>, \<open>-\<close> and \<open>1\<close>, whatever arithmetic they
  stand for. Python runs the method on its floats, which are binary64 numbers (the type
  \<open>float64\<close> of the next section); the exact reals, the decimal prices of the design,
  are another instance.
\<close>

type_synonym symbol = string

record 'a BaselinePredictor =
  alpha :: 'a
  ewma :: "symbol \<rightharpoonup> 'a"

definition new_predictor :: "'a \<Rightarrow> 'a BaselinePredictor" where
  "new_predictor a = \<lparr>alpha = a, ewma = Map.empty\<rparr>"

definition update_and_predict ::
  "('a::{one,plus,minus,times}) BaselinePredictor \<Rightarrow> symbol \<Rightarrow> 'a \<Rightarrow> 'a \<times> 'a BaselinePredictor" where
  "update_and_predict self symb price =
     (let prev = (case ewma self symb of None \<Rightarrow> price | Some v \<Rightarrow> v);
          e = alpha self * price + (1 - alpha self) * prev
      in (e, self\<lparr>ewma := (ewma self)(symb \<mapsto> e)\<rparr>))"

text \<open>
  A run of the predictor over a sequence of observations \<open>(symbol, price)\<close>, one call of
  \<open>update_and_predict\<close> each, in order: the predictions returned, each with its symbol,
  and the predictor afterwards.
\<close>

fun observe_all ::
  "('a::{one,plus,minus,times}) BaselinePredictor \<Rightarrow> (symbol \<times> 'a) list
     \<Rightarrow> (symbol \<times> 'a) list \<times> 'a BaselinePredictor" where
  "observe_all self [] = ([], self)"
| "observe_all self ((symb, price) # obs) =
     (case update_and_predict self symb price of
        (e, self1) \<Rightarrow>
          (case observe_all self1 obs of
             (out, self2) \<Rightarrow> ((symb, e) # out, self2)))"

text \<open>The values a sequence carries for one symbol: its prices, or its predictions.\<close>

definition values_of :: "symbol \<Rightarrow> (symbol \<times> 'a) list \<Rightarrow> 'a list" where
  "values_of symb xs = map snd (filter (\<lambda>x. fst x = symb) xs)"

definition predictions_of ::
  "symbol \<Rightarrow> ('a::{one,plus,minus,times}) BaselinePredictor \<Rightarrow> (symbol \<times> 'a) list \<Rightarrow> 'a list" where
  "predictions_of symb self obs = values_of symb (fst (observe_all self obs))"

text \<open>
  The view of one symbol, used in the proofs only: the smoothing of a price sequence from
  a previous value that may be absent.
\<close>

fun ewma_seq :: "('a::{one,plus,minus,times}) \<Rightarrow> 'a option \<Rightarrow> 'a list \<Rightarrow> 'a list" where
  "ewma_seq a prev [] = []"
| "ewma_seq a prev (p # ps) =
     (let e = a * p + (1 - a) * (case prev of None \<Rightarrow> p | Some v \<Rightarrow> v)
      in e # ewma_seq a (Some e) ps)"

fun ewma_last :: "('a::{one,plus,minus,times}) \<Rightarrow> 'a option \<Rightarrow> 'a list \<Rightarrow> 'a option" where
  "ewma_last a prev [] = prev"
| "ewma_last a prev (p # ps) =
     ewma_last a (Some (a * p + (1 - a) * (case prev of None \<Rightarrow> p | Some v \<Rightarrow> v))) ps"


section \<open>Binary64 arithmetic\<close>

text \<open>
  A Python float is an IEEE 754 binary64 number, and \<open>+\<close>, \<open>-\<close> and \<open>*\<close> on floats
  give the exact result rounded to the nearest binary64 number, ties to the even
  significand. A finite binary64 number is a real number here. \<open>round64\<close> rounds a real:
  the exponent is the least \<open>e\<close> from -1022 with \<open>\<bar>x\<bar> < 2 ^ (e + 1)\<close> (so numbers below
  \<open>2 ^ -1022\<close> are rounded on the subnormal grid), the spacing of the binary64 numbers at
  that exponent is \<open>2 ^ (e - 52)\<close>, and a result of magnitude \<open>2 ^ 1024\<close> or more is an
  overflow (\<open>None\<close>).
\<close>

definition round_half_even :: "real \<Rightarrow> int" where
  "round_half_even q =
     (let f = \<lfloor>q\<rfloor>; d = q - of_int f
      in if d < 1 / 2 then f
         else if 1 / 2 < d then f + 1
         else if even f then f else f + 1)"

definition round64 :: "real \<Rightarrow> real option" where
  "round64 x =
     (case List.find (\<lambda>e. \<bar>x\<bar> < 2 powi (e + 1)) [-1022..1023] of
        None \<Rightarrow> None
      | Some e \<Rightarrow>
          (let u = 2 powi (e - 52);
               r = of_int (round_half_even (x / u)) * u
           in if \<bar>r\<bar> < 2 powi 1024 then Some r else None))"

text \<open>
  The float type: a finite number, or \<open>NonFinite\<close>, which stands for the infinities and
  NaN together. An operation with an operand that is not finite gives a result that is
  not finite, and so does an overflow. \<open>py_float\<close> is the float that a decimal literal of
  the program text, or an integer operand, denotes: the nearest binary64 number.
\<close>

datatype float64 = Finite real | NonFinite

definition py_float :: "real \<Rightarrow> float64" where
  "py_float x = (case round64 x of None \<Rightarrow> NonFinite | Some r \<Rightarrow> Finite r)"

fun float_op :: "(real \<Rightarrow> real \<Rightarrow> real) \<Rightarrow> float64 \<Rightarrow> float64 \<Rightarrow> float64" where
  "float_op f (Finite x) (Finite y) = py_float (f x y)"
| "float_op f x y = NonFinite"

instantiation float64 :: "{one, plus, minus, times}"
begin

definition one_float64 :: float64 where
  "one_float64 = Finite 1"

definition plus_float64 :: "float64 \<Rightarrow> float64 \<Rightarrow> float64" where
  "plus_float64 x y = float_op (+) x y"

definition minus_float64 :: "float64 \<Rightarrow> float64 \<Rightarrow> float64" where
  "minus_float64 x y = float_op (-) x y"

definition times_float64 :: "float64 \<Rightarrow> float64 \<Rightarrow> float64" where
  "times_float64 x y = float_op (*) x y"

instance ..

end


section \<open>The HTTP handlers of the Go backend\<close>

text \<open>
  The Go server (\<^verbatim>\<open>cmd/server/main.go\<close>, \<^verbatim>\<open>internal/handlers\<close>) writes its answers
  through an \<^verbatim>\<open>http.ResponseWriter\<close>. The model keeps what the handlers can do to it: the
  header map they edit (\<^verbatim>\<open>w.Header().Set\<close> replaces the values of a key), the status
  line, which is sent once together with the header map as it is at that moment
  (\<^verbatim>\<open>WriteHeader\<close>; a second call changes nothing), and the body, here the JSON values
  that the texts written by \<^verbatim>\<open>json.NewEncoder(w).Encode\<close> denote, in order. Writing a
  body before any status sends status 200 first, as \<^verbatim>\<open>net/http\<close> does. The headers
  that \<^verbatim>\<open>net/http\<close> adds on its own (the date, the length, a content type it guesses
  when the handler sets none) are not modelled.
\<close>

datatype json = JString string | JFloat real | JInt int

type_synonym json_object = "string \<rightharpoonup> json"

record Request =
  Method :: string
  Vars :: "string \<rightharpoonup> string"

record ResponseWriter =
  Header :: "string \<rightharpoonup> string list"
  status :: "nat option"
  sent_header :: "string \<rightharpoonup> string list"
  Body :: "json_object list"

type_synonym Handler = "ResponseWriter \<Rightarrow> Request \<Rightarrow> ResponseWriter"

definition new_writer :: ResponseWriter where
  "new_writer = \<lparr>Header = Map.empty, status = None, sent_header = Map.empty, Body = []\<rparr>"

definition Header_Set :: "string \<Rightarrow> string \<Rightarrow> ResponseWriter \<Rightarrow> ResponseWriter" where
  "Header_Set k v w = w\<lparr>Header := (Header w)(k \<mapsto> [v])\<rparr>"

definition StatusOK :: nat where
  "StatusOK = 200"

definition WriteHeader :: "nat \<Rightarrow> ResponseWriter \<Rightarrow> ResponseWriter" where
  "WriteHeader code w =
     (case status w of
        None \<Rightarrow> w\<lparr>status := Some code, sent_header := Header w\<rparr>
      | Some c \<Rightarrow> w)"

text \<open>
  \<^verbatim>\<open>encoding/json\<close> writes a string value "coerced to valid UTF-8, replacing invalid
  bytes with the Unicode replacement rune": its string encoder walks the bytes with
  \<^verbatim>\<open>utf8.DecodeRuneInString\<close>, copies every well-formed sequence (the escapes it writes for
  some characters denote the same characters) and writes the escape of U+FFFD for every byte at which
  decoding fails. A string is a list of bytes. \<open>DecodeRuneInString_size\<close> is the width
  of the well-formed sequence at the head of a string, after the table of
  \<^verbatim>\<open>unicode/utf8\<close>, or \<open>None\<close> where Go returns \<^verbatim>\<open>(RuneError, 1)\<close>.
\<close>

definition in_range :: "nat \<Rightarrow> nat \<Rightarrow> char \<Rightarrow> bool" where
  "in_range lo hi c = (lo \<le> of_char c \<and> (of_char c :: nat) \<le> hi)"

fun DecodeRuneInString_size :: "string \<Rightarrow> nat option" where
  "DecodeRuneInString_size [] = None"
| "DecodeRuneInString_size (c # cs) =
     (let s0 = (of_char c :: nat) in
      if s0 < 0x80 then Some 1
      else if s0 < 0xC2 then None
      else if s0 < 0xE0 then
        (case cs of
           c1 # _ \<Rightarrow> if in_range 0x80 0xBF c1 then Some 2 else None
         | _ \<Rightarrow> None)
      else if s0 < 0xF0 then
        (case cs of
           c1 # c2 # _ \<Rightarrow>
             if in_range (if s0 = 0xE0 then 0xA0 else 0x80) (if s0 = 0xED then 0x9F else 0xBF) c1
                \<and> in_range 0x80 0xBF c2
             then Some 3 else None
         | _ \<Rightarrow> None)
      else if s0 < 0xF5 then
        (case cs of
           c1 # c2 # c3 # _ \<Rightarrow>
             if in_range (if s0 = 0xF0 then 0x90 else 0x80) (if s0 = 0xF4 then 0x8F else 0xBF) c1
                \<and> in_range 0x80 0xBF c2 \<and> in_range 0x80 0xBF c3
             then Some 4 else None
         | _ \<Rightarrow> None)
      else None)"

lemma DecodeRuneInString_size_bounds:
  "DecodeRuneInString_size s = Some n \<Longrightarrow> 0 < n \<and> n \<le> length s"
  by (cases s) (auto simp add: Let_def split: if_splits list.splits)

text \<open>The replacement rune U+FFFD, in UTF-8.\<close>

definition RuneError :: string where
  "RuneError = [CHR 0xEF, CHR 0xBF, CHR 0xBD]"

text \<open>
  The string that the JSON text written for a Go string denotes, and
  \<^verbatim>\<open>utf8.ValidString\<close>.
\<close>

function coerce_utf8 :: "string \<Rightarrow> string" where
  "coerce_utf8 [] = []"
| "coerce_utf8 (c # cs) =
     (case DecodeRuneInString_size (c # cs) of
        None \<Rightarrow> RuneError @ coerce_utf8 cs
      | Some n \<Rightarrow> take n (c # cs) @ coerce_utf8 (drop n (c # cs)))"
  by pat_completeness auto
termination
  by (relation "measure length")
    (auto simp del: DecodeRuneInString_size.simps dest!: DecodeRuneInString_size_bounds)

function ValidString :: "string \<Rightarrow> bool" where
  "ValidString [] = True"
| "ValidString (c # cs) =
     (case DecodeRuneInString_size (c # cs) of
        None \<Rightarrow> False
      | Some n \<Rightarrow> ValidString (drop n (c # cs)))"
  by pat_completeness auto
termination
  by (relation "measure length")
    (auto simp del: DecodeRuneInString_size.simps dest!: DecodeRuneInString_size_bounds)

text \<open>
  The JSON value that the client reads back for a Go value: strings coerced, numbers as
  they are (the floats of this program, 100.50, 1.25 and 15.5, are binary64 numbers and
  are written with all their digits). \<open>Encode\<close> writes one value; the keys of the
  objects of this program are ASCII literals, which the coercion leaves as they are.
  Encoding fails only for values that have no JSON form, which do not occur here.
\<close>

fun encoded :: "json \<Rightarrow> json" where
  "encoded (JString s) = JString (coerce_utf8 s)"
| "encoded (JFloat x) = JFloat x"
| "encoded (JInt n) = JInt n"

definition Encode :: "json_object \<Rightarrow> ResponseWriter \<Rightarrow> ResponseWriter" where
  "Encode v w =
     (let w1 = WriteHeader StatusOK w
      in w1\<lparr>Body := Body w1 @ [\<lambda>k. map_option encoded (v k)]\<rparr>)"

text \<open>
  \<^verbatim>\<open>
  func corsMiddleware(next http.Handler) http.Handler {
      return http.HandlerFunc(func(w http.ResponseWriter, r *http.Request) {
          w.Header().Set("Access-Control-Allow-Origin", "*")
          w.Header().Set("Access-Control-Allow-Methods", "GET, POST, PUT, DELETE, OPTIONS")
          w.Header().Set("Access-Control-Allow-Headers", "Origin, Content-Type, X-Auth-Token")
          if r.Method == "OPTIONS" {
              w.WriteHeader(http.StatusOK)
              return
          }
          next.ServeHTTP(w, r)
      })
  }
  \<close>
\<close>

definition corsMiddleware :: "Handler \<Rightarrow> Handler" where
  "corsMiddleware next w r =
     (let w1 = Header_Set ''Access-Control-Allow-Origin'' ''*'' w;
          w2 = Header_Set ''Access-Control-Allow-Methods'' ''GET, POST, PUT, DELETE, OPTIONS'' w1;
          w3 = Header_Set ''Access-Control-Allow-Headers'' ''Origin, Content-Type, X-Auth-Token'' w2
      in if Method r = ''OPTIONS'' then WriteHeader StatusOK w3 else next w3 r)"

text \<open>
  \<^verbatim>\<open>
  func (h *Handlers) GetStock(w http.ResponseWriter, r *http.Request) {
      vars := mux.Vars(r)
      symbol := vars["symbol"]
      stock := map[string]interface{}{
          "symbol": symbol, "name": "Sample Stock", "price": 100.50, "change": 1.25,
          "volume": 1000000, "market_cap": "1B", "pe_ratio": 15.5,
      }
      w.Header().Set("Content-Type", "application/json")
      json.NewEncoder(w).Encode(stock)
  }
  \<close>
  Reading a key that a Go map does not have gives the empty string.
\<close>

definition GetStock :: Handler where
  "GetStock w r =
     (let vars = Vars r;
          symbol = (case vars ''symbol'' of None \<Rightarrow> [] | Some v \<Rightarrow> v);
          stock = [''symbol'' \<mapsto> JString symbol,
                   ''name'' \<mapsto> JString ''Sample Stock'',
                   ''price'' \<mapsto> JFloat 100.50,
                   ''change'' \<mapsto> JFloat 1.25,
                   ''volume'' \<mapsto> JInt 1000000,
                   ''market_cap'' \<mapsto> JString ''1B'',
                   ''pe_ratio'' \<mapsto> JFloat 15.5];
          w1 = Header_Set ''Content-Type'' ''application/json'' w
      in Encode stock w1)"


section \<open>The subscription registry and the hub of the design\<close>

text \<open>
  The repository has no code for the hub: not for its messages, the registry, the
  handling of client requests, session teardown, the stale-tick filter or the upstream
  client. The build plan only names them (\<^verbatim>\<open>backend/app/ws/hub.py\<close>: "keep
  \<^verbatim>\<open>subscriptions: dict[str, set[WebSocket]]\<close>; on first subscriber, provider.subscribe; on
  last disconnect, provider.unsubscribe"). The definitions of this section and the next
  follow the words of the design instead; each says so. Prices are of any number type,
  as in the predictor.
\<close>

type_synonym session_id = nat

type_synonym registry = "symbol \<Rightarrow> session_id set"

text \<open>
  Modelled from the spec: the tick of the data model (symbol, price, timestamp), for
  which there is no code.
\<close>

record 'a Tick =
  tick_symbol :: symbol
  tick_price :: 'a
  tick_ts :: int

text \<open>
  Modelled from the spec: the outbound message, for which there is no code: a tick
  (symbol, price, timestamp), a prediction (symbol, predicted price, horizon in seconds,
  timestamp) or a status event.
\<close>

datatype 'a OutboundMessage =
    TickMsg symbol 'a int
  | PredictionMsg symbol 'a nat int
  | StatusMsg string

text \<open>
  Modelled from the spec: the registry's \<open>addInterest(symbol, consumerID)\<close>, for which
  there is no code. It registers interest and returns true if this is the symbol's first
  subscriber. The registry maps a symbol to the set of consumers interested in it.
\<close>

definition addInterest :: "registry \<Rightarrow> symbol \<Rightarrow> session_id \<Rightarrow> registry \<times> bool" where
  "addInterest reg symb c = (reg(symb := insert c (reg symb)), reg symb = {})"

text \<open>
  Modelled from the spec: the registry's \<open>removeInterest(symbol, consumerID)\<close>, for
  which there is no code. It returns true if this was the last subscriber.
\<close>

definition removeInterest :: "registry \<Rightarrow> symbol \<Rightarrow> session_id \<Rightarrow> registry \<times> bool" where
  "removeInterest reg symb c =
     (reg(symb := reg symb - {c}), c \<in> reg symb \<and> reg symb - {c} = {})"

text \<open>
  Modelled from the spec: the registry's \<open>consumersFor(symbol)\<close>, for which there is no
  code: the set of consumers used for fan-out.
\<close>

definition consumersFor :: "registry \<Rightarrow> symbol \<Rightarrow> session_id set" where
  "consumersFor reg symb = reg symb"

text \<open>
  Modelled from the spec: the predictor's \<open>observe(symbol, price)\<close> as the hub calls it,
  for which there is no code. It is the repository's \<open>update_and_predict\<close>, except that
  no prediction is produced before at least one observation: the first observation of a
  symbol only updates the predictor.
\<close>

definition observe ::
  "('a::{one,plus,minus,times}) BaselinePredictor \<Rightarrow> symbol \<Rightarrow> 'a
     \<Rightarrow> 'a option \<times> 'a BaselinePredictor" where
  "observe pr symb price =
     (case update_and_predict pr symb price of
        (e, pr1) \<Rightarrow> (case ewma pr symb of None \<Rightarrow> None | Some v \<Rightarrow> Some e, pr1))"

text \<open>
  Modelled from the spec: the state of the hub, for which there is no code. The registry;
  for each session its set of subscribed symbols (a list without repetitions); the
  symbols subscribed upstream (the upstream client's \<open>subscribe\<close> and \<open>unsubscribe\<close>
  are idempotent, so its state is a set); the last timestamp the hub let through for a
  symbol; the predictor; the horizon put into prediction messages; and, for each
  session, every message the hub has enqueued for it, in order.
\<close>

record 'a Hub =
  subscribers :: registry
  session_symbols :: "session_id \<Rightarrow> symbol list"
  upstream :: "symbol set"
  last_ts :: "symbol \<rightharpoonup> int"
  predictor :: "'a BaselinePredictor"
  horizon :: nat
  outbound :: "session_id \<Rightarrow> 'a OutboundMessage list"

text \<open>
  Modelled from the spec: a hub at start, for which there is no code: no subscription,
  nothing observed, nothing sent.
\<close>

definition new_hub :: "'a \<Rightarrow> nat \<Rightarrow> 'a Hub" where
  "new_hub a h =
     \<lparr>subscribers = (\<lambda>symb. {}), session_symbols = (\<lambda>sid. []), upstream = {},
      last_ts = Map.empty, predictor = new_predictor a, horizon = h,
      outbound = (\<lambda>sid. [])\<rparr>"

text \<open>
  Modelled from the spec: the hub's \<open>onClientSubscribe(sessionID, symbol)\<close>, for which
  there is no code. It registers the session in its own symbol set and calls
  \<open>addInterest\<close>; if that returns "first subscriber", it subscribes upstream.
\<close>

definition onClientSubscribe :: "'a Hub \<Rightarrow> session_id \<Rightarrow> symbol \<Rightarrow> 'a Hub" where
  "onClientSubscribe hub sid symb =
     (case addInterest (subscribers hub) symb sid of
        (reg, first) \<Rightarrow>
          hub\<lparr>session_symbols :=
                 (session_symbols hub)(sid := List.insert symb (session_symbols hub sid)),
              subscribers := reg,
              upstream := (if first then insert symb (upstream hub) else upstream hub)\<rparr>)"

text \<open>
  Modelled from the spec: the hub's \<open>onClientUnsubscribe(sessionID, symbol)\<close>, for which
  there is no code: the mirror image, calling \<open>removeInterest\<close> and, on "last
  subscriber", unsubscribing upstream.
\<close>

definition onClientUnsubscribe :: "'a Hub \<Rightarrow> session_id \<Rightarrow> symbol \<Rightarrow> 'a Hub" where
  "onClientUnsubscribe hub sid symb =
     (case removeInterest (subscribers hub) symb sid of
        (reg, last_one) \<Rightarrow>
          hub\<lparr>session_symbols :=
                 (session_symbols hub)(sid := removeAll symb (session_symbols hub sid)),
              subscribers := reg,
              upstream := (if last_one then upstream hub - {symb} else upstream hub)\<rparr>)"

text \<open>
  Modelled from the spec: session teardown, for which there is no code. The destruction
  of a session removes all its subscriptions from the registry, one symbol of its symbol
  set after the other, each possibly triggering an upstream unsubscribe.
\<close>

definition onSessionClosed :: "'a Hub \<Rightarrow> session_id \<Rightarrow> 'a Hub" where
  "onSessionClosed hub sid =
     fold (\<lambda>symb h. onClientUnsubscribe h sid symb) (session_symbols hub sid) hub"

text \<open>
  Modelled from the spec: the stale-tick test, for which there is no code. A tick is
  stale when its timestamp is not strictly greater than the last timestamp let through
  for its symbol.
\<close>

definition stale :: "'a Hub \<Rightarrow> 'a Tick \<Rightarrow> bool" where
  "stale hub tk =
     (case last_ts hub (tick_symbol tk) of None \<Rightarrow> False | Some l \<Rightarrow> tick_ts tk \<le> l)"

text \<open>
  Modelled from the spec: the hub's \<open>onUpstreamTick(tick)\<close>, for which there is no code.
  A stale tick is discarded. Otherwise the hub calls \<open>observe\<close> to obtain a prediction,
  then \<open>consumersFor\<close>, and enqueues the tick message and, if a prediction was produced,
  the prediction message after it, for every consumer of the symbol. The throttle of the
  design sits behind this step and is not part of it.
\<close>

definition onUpstreamTick ::
  "('a::{one,plus,minus,times}) Hub \<Rightarrow> 'a Tick \<Rightarrow> 'a Hub" where
  "onUpstreamTick hub tk =
     (if stale hub tk then hub
      else
        (case observe (predictor hub) (tick_symbol tk) (tick_price tk) of
           (pred, pr) \<Rightarrow>
             (let consumers = consumersFor (subscribers hub) (tick_symbol tk);
                  msgs = TickMsg (tick_symbol tk) (tick_price tk) (tick_ts tk)
                         # (case pred of
                              None \<Rightarrow> []
                            | Some v \<Rightarrow>
                                [PredictionMsg (tick_symbol tk) v (horizon hub) (tick_ts tk)])
              in hub\<lparr>predictor := pr,
                     last_ts := (last_ts hub)(tick_symbol tk \<mapsto> tick_ts tk),
                     outbound :=
                       (\<lambda>sid. outbound hub sid @ (if sid \<in> consumers then msgs else []))\<rparr>)))"

text \<open>
  Modelled from the spec: what can happen to the hub, one event at a time, and a run of
  the hub over a finite sequence of events, in any interleaving.
\<close>

datatype 'a Event =
    ClientSubscribe session_id symbol
  | ClientUnsubscribe session_id symbol
  | SessionClosed session_id
  | UpstreamTick "'a Tick"

fun hub_step :: "('a::{one,plus,minus,times}) Hub \<Rightarrow> 'a Event \<Rightarrow> 'a Hub" where
  "hub_step hub (ClientSubscribe sid symb) = onClientSubscribe hub sid symb"
| "hub_step hub (ClientUnsubscribe sid symb) = onClientUnsubscribe hub sid symb"
| "hub_step hub (SessionClosed sid) = onSessionClosed hub sid"
| "hub_step hub (UpstreamTick tk) = onUpstreamTick hub tk"

definition hub_run :: "('a::{one,plus,minus,times}) Hub \<Rightarrow> 'a Event list \<Rightarrow> 'a Hub" where
  "hub_run hub evs = foldl hub_step hub evs"

text \<open>
  Modelled from the spec: the symbols a session currently holds interest in, read off
  the calls made so far and nothing else. A subscription is created when the session
  requests the symbol, and destroyed on its explicit unsubscribe or on the termination
  of the session.
\<close>

fun interest_step :: "(session_id \<Rightarrow> symbol set) \<Rightarrow> 'a Event \<Rightarrow> session_id \<Rightarrow> symbol set" where
  "interest_step held (ClientSubscribe sid symb) = held(sid := insert symb (held sid))"
| "interest_step held (ClientUnsubscribe sid symb) = held(sid := held sid - {symb})"
| "interest_step held (SessionClosed sid) = held(sid := {})"
| "interest_step held (UpstreamTick tk) = held"

definition interest_of :: "'a Event list \<Rightarrow> session_id \<Rightarrow> symbol set" where
  "interest_of evs = foldl interest_step (\<lambda>sid. {}) evs"

text \<open>The timestamps of the tick messages of one symbol in a sequence of messages.\<close>

fun tick_times :: "symbol \<Rightarrow> 'a OutboundMessage list \<Rightarrow> int list" where
  "tick_times symb [] = []"
| "tick_times symb (TickMsg s p ts # ms) =
     (if s = symb then ts # tick_times symb ms else tick_times symb ms)"
| "tick_times symb (m # ms) = tick_times symb ms"

text \<open>
  Two invariants of the hub, used in the proofs. The first: a symbol is subscribed
  upstream exactly when the registry has a consumer for it, and the registry lists a
  session for a symbol exactly when the session's own symbol set has the symbol. The
  second: for every session and symbol, the timestamps of the enqueued tick messages
  increase strictly and none is above the last timestamp let through for the symbol.
\<close>

definition registry_consistent :: "'a Hub \<Rightarrow> bool" where
  "registry_consistent hub =
     ((\<forall>symb. (symb \<in> upstream hub) = (subscribers hub symb \<noteq> {}))
      \<and> (\<forall>sid symb. (sid \<in> subscribers hub symb) = (symb \<in> set (session_symbols hub sid))))"

definition ticks_increasing :: "'a Hub \<Rightarrow> bool" where
  "ticks_increasing hub =
     (\<forall>sid symb. sorted_wrt (<) (tick_times symb (outbound hub sid))
        \<and> (\<forall>t \<in> set (tick_times symb (outbound hub sid)).
              case last_ts hub symb of None \<Rightarrow> False | Some l \<Rightarrow> t \<le> l))"


section \<open>The outbound queue of a session\<close>








section \<open>Properties of the predictor\<close>

lemma update_and_predict_alpha [simp]:
  "alpha (snd (update_and_predict self symb price)) = alpha self"
  by (simp add: update_and_predict_def Let_def)

lemma update_and_predict_other:
  "symb' \<noteq> symb \<Longrightarrow> ewma (snd (update_and_predict self symb price)) symb' = ewma self symb'"
  by (simp add: update_and_predict_def Let_def)

lemma update_and_predict_same:
  "ewma (snd (update_and_predict self symb price)) symb = Some (fst (update_and_predict self symb price))"
  by (simp add: update_and_predict_def Let_def)

lemma update_and_predict_value:
  "fst (update_and_predict self symb price) =
     alpha self * price + (1 - alpha self) * (case ewma self symb of None \<Rightarrow> price | Some v \<Rightarrow> v)"
  by (simp add: update_and_predict_def Let_def)

lemma observe_all_Cons_fst:
  "fst (observe_all self ((s, p) # obs)) =
     (s, fst (update_and_predict self s p)) # fst (observe_all (snd (update_and_predict self s p)) obs)"
  by (simp split: prod.splits)

lemma observe_all_Cons_snd:
  "snd (observe_all self ((s, p) # obs)) = snd (observe_all (snd (update_and_predict self s p)) obs)"
  by (simp split: prod.splits)

lemma predictions_of_ewma_seq:
  "predictions_of symb self obs = ewma_seq (alpha self) (ewma self symb) (values_of symb obs)"
proof (induction obs arbitrary: self)
  case Nil
  show ?case by (simp add: predictions_of_def values_of_def)
next
  case (Cons x obs)
  obtain s p where x: "x = (s, p)" by (cases x)
  define self1 where "self1 = snd (update_and_predict self s p)"
  have ih: "predictions_of symb self1 obs = ewma_seq (alpha self) (ewma self1 symb) (values_of symb obs)"
    using Cons.IH [of self1] by (simp add: self1_def)
  show ?case
  proof (cases "s = symb")
    case True
    have "ewma self1 symb = Some (fst (update_and_predict self symb p))"
      using update_and_predict_same [of self symb p] True by (simp add: self1_def)
    with ih have "predictions_of symb self1 obs =
        ewma_seq (alpha self) (Some (fst (update_and_predict self symb p))) (values_of symb obs)"
      by simp
    then show ?thesis
      using True
      by (simp add: predictions_of_def values_of_def x observe_all_Cons_fst self1_def
          update_and_predict_value Let_def del: observe_all.simps)
  next
    case False
    have "ewma self1 symb = ewma self symb"
      using update_and_predict_other [of symb s self p] False by (simp add: self1_def)
    with ih show ?thesis
      using False
      by (simp add: predictions_of_def values_of_def x observe_all_Cons_fst self1_def
          del: observe_all.simps)
  qed
qed


lemma observe_all_ewma_last:
  "ewma (snd (observe_all self obs)) symb = ewma_last (alpha self) (ewma self symb) (values_of symb obs)"
proof (induction obs arbitrary: self)
  case Nil
  show ?case by (simp add: values_of_def)
next
  case (Cons x obs)
  obtain s p where x: "x = (s, p)" by (cases x)
  define self1 where "self1 = snd (update_and_predict self s p)"
  have ih: "ewma (snd (observe_all self1 obs)) symb =
      ewma_last (alpha self) (ewma self1 symb) (values_of symb obs)"
    using Cons.IH [of self1] by (simp add: self1_def)
  show ?case
  proof (cases "s = symb")
    case True
    have "ewma self1 symb = Some (fst (update_and_predict self symb p))"
      using update_and_predict_same [of self symb p] True by (simp add: self1_def)
    with ih show ?thesis
      using True
      by (simp add: values_of_def x observe_all_Cons_snd self1_def update_and_predict_value
          del: observe_all.simps)
  next
    case False
    have "ewma self1 symb = ewma self symb"
      using update_and_predict_other [of symb s self p] False by (simp add: self1_def)
    with ih show ?thesis
      using False
      by (simp add: values_of_def x observe_all_Cons_snd self1_def del: observe_all.simps)
  qed
qed

lemma length_ewma_seq [simp]: "length (ewma_seq a prev ps) = length ps"
  by (induction ps arbitrary: prev) (simp_all add: Let_def)

lemma ewma_seq_recurrence:
  "Suc n < length ps \<Longrightarrow>
     ewma_seq a prev ps ! Suc n = a * (ps ! Suc n) + (1 - a) * (ewma_seq a prev ps ! n)"
proof (induction ps arbitrary: prev n)
  case Nil
  then show ?case by simp
next
  case (Cons p ps)
  show ?case
  proof (cases n)
    case 0
    with Cons.prems obtain q qs where "ps = q # qs" by (cases ps) auto
    with 0 show ?thesis by (simp add: Let_def)
  next
    case (Suc m)
    with Cons.prems have "Suc m < length ps" by simp
    from Cons.IH [OF this] Suc show ?thesis by (simp add: Let_def)
  qed
qed

lemma ewma_seq_first:
  fixes a :: "'a::comm_ring_1"
  shows "ewma_seq a None (p # ps) ! 0 = p"
  by (simp add: Let_def algebra_simps)

lemma ewma_seq_first_value: "ewma_seq a None (p # ps) ! 0 = a * p + (1 - a) * p"
  by (simp add: Let_def)

lemma two_observations:
  "predictions_of symb (new_predictor a) [(symb, p1), (symb, p2)]
     = [a * p1 + (1 - a) * p1, a * p2 + (1 - a) * (a * p1 + (1 - a) * p1)]"
  by (simp add: predictions_of_ewma_seq new_predictor_def values_of_def Let_def)



text \<open>
  Claim C7 (determinism, no interference between symbols). Take two runs of the predictor
  whose smoothing factor is the same and whose stored value for a symbol is the same
  (two new predictors, for instance), over two observation sequences that carry the same
  prices for that symbol, in the same order, with observations of other symbols placed
  anywhere. Then the two runs return the same predictions for the symbol and leave the
  same stored value for it. An observation of another symbol leaves the stored value of
  the symbol as it was.
\<close>

theorem predictor_deterministic_per_symbol:
  assumes "alpha self1 = alpha self2"
    and "ewma self1 symb = ewma self2 symb"
    and "values_of symb obs1 = values_of symb obs2"
  shows "predictions_of symb self1 obs1 = predictions_of symb self2 obs2
    \<and> ewma (snd (observe_all self1 obs1)) symb = ewma (snd (observe_all self2 obs2)) symb
    \<and> (\<forall>other price. other \<noteq> symb \<longrightarrow>
          ewma (snd (update_and_predict self1 other price)) symb = ewma self1 symb)"
proof -
  have "predictions_of symb self1 obs1 = predictions_of symb self2 obs2"
    using assms by (simp add: predictions_of_ewma_seq)
  moreover have "ewma (snd (observe_all self1 obs1)) symb = ewma (snd (observe_all self2 obs2)) symb"
    using assms by (simp add: observe_all_ewma_last)
  moreover have "\<forall>other price. other \<noteq> symb \<longrightarrow>
      ewma (snd (update_and_predict self1 other price)) symb = ewma self1 symb"
    by (simp add: update_and_predict_other)
  ultimately show ?thesis by blast
qed

theorem predictor_deterministic_per_symbol_witness:
  "values_of ''AAPL'' [(''AAPL'', 100.00), (''MSFT'', 50), (''AAPL'', 102.00 :: real)]
     = values_of ''AAPL'' [(''TSLA'', 7), (''AAPL'', 100.00), (''AAPL'', 102.00), (''TSLA'', 9)]
   \<and> predictions_of ''AAPL'' (new_predictor (0.3 :: real))
        [(''AAPL'', 100.00), (''MSFT'', 50), (''AAPL'', 102.00)]
     = predictions_of ''AAPL'' (new_predictor 0.3)
        [(''TSLA'', 7), (''AAPL'', 100.00), (''AAPL'', 102.00), (''TSLA'', 9)]
   \<and> ewma (snd (update_and_predict (new_predictor (0.3 :: real)) ''MSFT'' 50)) ''AAPL''
     = ewma (new_predictor (0.3 :: real)) ''AAPL''"
  using predictor_deterministic_per_symbol
    [of "new_predictor (0.3 :: real)" "new_predictor 0.3" "''AAPL''"
        "[(''AAPL'', 100.00), (''MSFT'', 50), (''AAPL'', 102.00)]"
        "[(''TSLA'', 7), (''AAPL'', 100.00), (''AAPL'', 102.00), (''TSLA'', 9)]"]
  by (simp add: values_of_def)


section \<open>Properties of binary64 rounding\<close>

lemma find_in_append:
  "List.find P (xs @ ys) = (case List.find P xs of None \<Rightarrow> List.find P ys | Some x \<Rightarrow> Some x)"
  by (induction xs) simp_all

lemma find_upto:
  assumes "a \<le> k" "k \<le> b" "P k" "\<And>e. a \<le> e \<Longrightarrow> e < k \<Longrightarrow> \<not> P e"
  shows "List.find P [a..b] = Some k"
proof -
  have "[a..b] = [a..k - 1] @ k # [k + 1..b]"
    using assms(1,2) by (rule upto_split3)
  moreover have "List.find P [a..k - 1] = None"
    using assms(4) by (auto simp add: find_None_iff)
  ultimately show ?thesis
    using assms(3) by (simp add: find_in_append)
qed

lemma round_half_even_le:
  "q \<le> of_int n \<Longrightarrow> round_half_even q \<le> n"
  unfolding round_half_even_def Let_def
  by (auto simp: floor_le_iff le_floor_iff; linarith)

lemma round_half_even_ge:
  "of_int n \<le> q \<Longrightarrow> n \<le> round_half_even q"
  unfolding round_half_even_def Let_def
  by (auto simp: floor_le_iff le_floor_iff; linarith)

lemma round_half_even_abs:
  assumes "\<bar>q\<bar> < of_int n"
  shows "\<bar>real_of_int (round_half_even q)\<bar> \<le> of_int n"
proof -
  have "q \<le> of_int n" "of_int (- n) \<le> q"
    using assms by simp_all
  then have "round_half_even q \<le> n" "- n \<le> round_half_even q"
    by (simp_all only: round_half_even_le round_half_even_ge)
  then have "\<bar>round_half_even q\<bar> \<le> n" by simp
  then show ?thesis by linarith
qed

text \<open>
  Rounding a number of a known binade: for \<open>2 ^ k \<le> \<bar>x\<bar> < 2 ^ (k + 1)\<close> the result is
  the multiple of \<open>2 ^ (k - 52)\<close> nearest to \<open>x\<close>.
\<close>

lemma round64_eval:
  assumes k: "-1022 \<le> k" "k \<le> 1022"
    and lo: "2 powi k \<le> \<bar>x\<bar>" and hi: "\<bar>x\<bar> < 2 powi (k + 1)"
  shows "round64 x = Some (of_int (round_half_even (x / 2 powi (k - 52))) * 2 powi (k - 52))"
proof -
  have below: "\<not> \<bar>x\<bar> < 2 powi (e + 1)" if "e < k" for e
  proof -
    have "(2::real) powi (e + 1) \<le> 2 powi k"
      using that by (intro power_int_increasing) auto
    with lo show ?thesis by linarith
  qed
  have f: "List.find (\<lambda>e. \<bar>x\<bar> < 2 powi (e + 1)) [-1022..1023] = Some k"
    using k hi below by (intro find_upto) auto
  define u :: real where "u = 2 powi (k - 52)"
  define N :: int where "N = 2 ^ 53"
  define n where "n = round_half_even (x / u)"
  have upos: "0 < u" by (simp add: u_def)
  have u53: "2 powi (k + 1) = of_int N * u"
  proof -
    have "(2::real) powi (53 + (k - 52)) = 2 powi 53 * 2 powi (k - 52)"
      by (rule power_int_add) simp
    moreover have "53 + (k - 52) = k + 1" by simp
    ultimately show ?thesis by (simp add: u_def N_def)
  qed
  have "\<bar>x\<bar> < of_int N * u" using hi u53 by simp
  then have "\<bar>x\<bar> / u < of_int N"
    using upos by (simp only: pos_divide_less_eq)
  moreover have au: "\<bar>u\<bar> = u" using upos by simp
  moreover have "\<bar>x / u\<bar> = \<bar>x\<bar> / u"
    by (simp only: abs_divide au)
  ultimately have q: "\<bar>x / u\<bar> < of_int N" by simp
  have nb: "\<bar>real_of_int n\<bar> \<le> of_int N"
    unfolding n_def using q by (rule round_half_even_abs)
  have "\<bar>of_int n * u\<bar> = \<bar>real_of_int n\<bar> * u"
    by (simp only: abs_mult au)
  also have "\<dots> \<le> of_int N * u"
    using nb upos by (intro mult_right_mono) simp_all
  also have "\<dots> = 2 powi (k + 1)" using u53 by simp
  also have "\<dots> \<le> 2 powi 1023"
    using k by (intro power_int_increasing) auto
  also have "\<dots> < (2::real) powi 1024"
    by (intro power_int_strict_increasing) auto
  finally have "\<bar>of_int n * u\<bar> < 2 powi 1024" .
  then have "round64 x = Some (of_int n * u)"
    unfolding round64_def f n_def u_def by (simp only: Let_def option.case if_True)
  then show ?thesis by (simp only: n_def u_def)
qed

text \<open>
  The binary64 values of the literals and of the operations that the statements below
  run through, each computed by the rounding above.
\<close>

lemma f64_alpha: "py_float 0.3 = Finite (5404319552844595 / 18014398509481984)"
  using round64_eval [of "-2" "0.3"]
  by (simp add: py_float_def round_half_even_def Let_def)

lemma f64_p: "py_float 100.42 = Finite (7066429290321019 / 70368744177664)"
  using round64_eval [of "6" "100.42"]
  by (simp add: py_float_def round_half_even_def Let_def)

lemma f64_101: "py_float 101 = Finite (101)"
  using round64_eval [of "6" "101"]
  by (simp add: py_float_def round_half_even_def Let_def)

lemma f64_100: "py_float 100 = Finite (100)"
  using round64_eval [of "6" "100"]
  by (simp add: py_float_def round_half_even_def Let_def)

lemma f64_102: "py_float 102 = Finite (102)"
  using round64_eval [of "6" "102"]
  by (simp add: py_float_def round_half_even_def Let_def)

lemma f64_100_6: "py_float 100.6 = Finite (3539547832136499 / 35184372088832)"
  using round64_eval [of "6" "100.6"]
  by (simp add: py_float_def round_half_even_def Let_def)

lemma f64_0_7: "py_float 0.7 = Finite (3152519739159347 / 4503599627370496)"
  using round64_eval [of "-1" "0.7"]
  by (simp add: py_float_def round_half_even_def Let_def)

lemma f64_one_minus_alpha: "1 - Finite (5404319552844595 / 18014398509481984) = Finite (3152519739159347 / 4503599627370496)"
  using round64_eval [of "-1" "1 - (5404319552844595 / 18014398509481984)"]
  by (simp add: minus_float64_def one_float64_def py_float_def round_half_even_def Let_def)

lemma f64_t1: "Finite (5404319552844595 / 18014398509481984) * Finite (7066429290321019 / 70368744177664) = Finite (4239857574192611 / 140737488355328)"
  using round64_eval [of "4" "5404319552844595 / 18014398509481984 * (7066429290321019 / 70368744177664)"]
  by (simp add: times_float64_def py_float_def round_half_even_def Let_def)

lemma f64_t2: "Finite (3152519739159347 / 4503599627370496) * Finite (7066429290321019 / 70368744177664) = Finite (4946500503224713 / 70368744177664)"
  using round64_eval [of "6" "3152519739159347 / 4503599627370496 * (7066429290321019 / 70368744177664)"]
  by (simp add: times_float64_def py_float_def round_half_even_def Let_def)

lemma f64_e1: "Finite (4239857574192611 / 140737488355328) + Finite (4946500503224713 / 70368744177664) = Finite (3533214645160509 / 35184372088832)"
  using round64_eval [of "6" "4239857574192611 / 140737488355328 + (4946500503224713 / 70368744177664)"]
  by (simp add: plus_float64_def py_float_def round_half_even_def Let_def)

lemma f64_u1: "Finite (5404319552844595 / 18014398509481984) * Finite (101) = Finite (2132172948583219 / 70368744177664)"
  using round64_eval [of "4" "5404319552844595 / 18014398509481984 * (101)"]
  by (simp add: times_float64_def py_float_def round_half_even_def Let_def)

lemma f64_u2: "Finite (3152519739159347 / 4503599627370496) * Finite (3533214645160509 / 35184372088832) = Finite (618312562903089 / 8796093022208)"
  using round64_eval [of "6" "3152519739159347 / 4503599627370496 * (3533214645160509 / 35184372088832)"]
  by (simp add: times_float64_def py_float_def round_half_even_def Let_def)

lemma f64_e2: "Finite (2132172948583219 / 70368744177664) + Finite (618312562903089 / 8796093022208) = Finite (7078673451807931 / 70368744177664)"
  using round64_eval [of "6" "2132172948583219 / 70368744177664 + (618312562903089 / 8796093022208)"]
  by (simp add: plus_float64_def py_float_def round_half_even_def Let_def)

lemma f64_claimed: "Finite (2132172948583219 / 70368744177664) + Finite (4946500503224713 / 70368744177664) = Finite (1769668362951983 / 17592186044416)"
  using round64_eval [of "6" "2132172948583219 / 70368744177664 + (4946500503224713 / 70368744177664)"]
  by (simp add: plus_float64_def py_float_def round_half_even_def Let_def)

lemma f64_q1: "Finite (5404319552844595 / 18014398509481984) * Finite (100) = Finite (30)"
  using round64_eval [of "4" "5404319552844595 / 18014398509481984 * (100)"]
  by (simp add: times_float64_def py_float_def round_half_even_def Let_def)

lemma f64_q2: "Finite (3152519739159347 / 4503599627370496) * Finite (100) = Finite (70)"
  using round64_eval [of "6" "3152519739159347 / 4503599627370496 * (100)"]
  by (simp add: times_float64_def py_float_def round_half_even_def Let_def)

lemma f64_f1: "Finite (30) + Finite (70) = Finite (100)"
  using round64_eval [of "6" "30 + (70)"]
  by (simp add: plus_float64_def py_float_def round_half_even_def Let_def)

lemma f64_r1: "Finite (5404319552844595 / 18014398509481984) * Finite (102) = Finite (8613134287346073 / 281474976710656)"
  using round64_eval [of "4" "5404319552844595 / 18014398509481984 * (102)"]
  by (simp add: times_float64_def py_float_def round_half_even_def Let_def)

lemma f64_f2: "Finite (8613134287346073 / 281474976710656) + Finite (70) = Finite (3539547832136499 / 35184372088832)"
  using round64_eval [of "6" "8613134287346073 / 281474976710656 + (70)"]
  by (simp add: plus_float64_def py_float_def round_half_even_def Let_def)


section \<open>Properties of the predictor on its number types\<close>

text \<open>
  Claim C2, amended (EWMA correctness). Take any sequence of observations given to a new
  predictor with smoothing factor \<open>a\<close>, in which a symbol is observed at least twice
  (observations of other symbols may lie in between), in whatever arithmetic the
  predictor runs. Then the symbol gets one prediction for each of its prices; every
  later prediction is \<open>a * price + (1 - a) * previous prediction\<close>; and the first is
  \<open>a * p1 + (1 - a) * p1\<close>, the previous value being initialised to the first price
  \<open>p1\<close>. In exact arithmetic the first prediction is \<open>p1\<close> itself, and the prices 100.00
  and 102.00 with \<open>a = 0.3\<close> give 100.6 at the second observation. In binary64 the same
  prices give the float 100.6 as well, which is also the float \<open>0.3*102 + 0.7*100\<close>.
\<close>

theorem ewma_correct:
  fixes a :: "'a::{one,plus,minus,times}"
  assumes "2 \<le> length (values_of symb obs)"
  shows "length (predictions_of symb (new_predictor a) obs) = length (values_of symb obs)
    \<and> predictions_of symb (new_predictor a) obs ! 0 =
          a * (values_of symb obs ! 0) + (1 - a) * (values_of symb obs ! 0)
    \<and> (\<forall>n. Suc n < length (values_of symb obs) \<longrightarrow>
          predictions_of symb (new_predictor a) obs ! Suc n =
            a * (values_of symb obs ! Suc n)
              + (1 - a) * (predictions_of symb (new_predictor a) obs ! n))
    \<and> (values_of symb robs \<noteq> [] \<longrightarrow>
          predictions_of symb (new_predictor (b :: real)) robs ! 0 = values_of symb robs ! 0)
    \<and> predictions_of ''AAPL'' (new_predictor (0.3 :: real)) [(''AAPL'', 100.00), (''AAPL'', 102.00)]
          = [100.00, 100.6]
    \<and> predictions_of ''AAPL'' (new_predictor (py_float 0.3))
          [(''AAPL'', py_float 100), (''AAPL'', py_float 102)]
          = [py_float 100, py_float 100.6]
    \<and> py_float 0.3 * py_float 102 + py_float 0.7 * py_float 100 = py_float 100.6"
proof -
  let ?ps = "values_of symb obs"
  have eq: "predictions_of symb (new_predictor a) obs = ewma_seq a None ?ps"
    by (simp add: predictions_of_ewma_seq new_predictor_def)
  from assms obtain p qs where ps: "?ps = p # qs" by (cases ?ps) auto
  have len: "length (ewma_seq a None ?ps) = length ?ps" by simp
  have first: "ewma_seq a None ?ps ! 0 = a * (?ps ! 0) + (1 - a) * (?ps ! 0)"
    unfolding ps using ewma_seq_first_value [of a p qs] by simp
  have rec: "\<forall>n. Suc n < length ?ps \<longrightarrow>
      ewma_seq a None ?ps ! Suc n = a * (?ps ! Suc n) + (1 - a) * (ewma_seq a None ?ps ! n)"
    using ewma_seq_recurrence [of _ ?ps a None] by blast
  have exact: "values_of symb robs \<noteq> [] \<longrightarrow>
      predictions_of symb (new_predictor b) robs ! 0 = values_of symb robs ! 0"
  proof
    assume "values_of symb robs \<noteq> []"
    then obtain r rs where "values_of symb robs = r # rs"
      by (cases "values_of symb robs") auto
    then show "predictions_of symb (new_predictor b) robs ! 0 = values_of symb robs ! 0"
      using ewma_seq_first [of b r rs]
      by (simp add: predictions_of_ewma_seq new_predictor_def)
  qed
  have ex: "predictions_of ''AAPL'' (new_predictor (0.3 :: real)) [(''AAPL'', 100.00), (''AAPL'', 102.00)]
      = [100.00, 100.6]"
    by (simp add: two_observations)
  have fl: "predictions_of ''AAPL'' (new_predictor (py_float 0.3))
      [(''AAPL'', py_float 100), (''AAPL'', py_float 102)] = [py_float 100, py_float 100.6]"
    by (simp only: two_observations f64_alpha f64_100 f64_102 f64_100_6 f64_one_minus_alpha
        f64_q1 f64_q2 f64_f1 f64_r1 f64_f2)
  have lit: "py_float 0.3 * py_float 102 + py_float 0.7 * py_float 100 = py_float 100.6"
    by (simp only: f64_alpha f64_100 f64_102 f64_100_6 f64_0_7 f64_q2 f64_r1 f64_f2)
  show ?thesis
    unfolding eq using len first rec exact ex fl lit by blast
qed

theorem ewma_correct_witness:
  "2 \<le> length (values_of ''AAPL''
          [(''AAPL'', py_float 100.42), (''MSFT'', py_float 100), (''AAPL'', py_float 101)])
   \<and> predictions_of ''AAPL'' (new_predictor (py_float 0.3))
        [(''AAPL'', py_float 100.42), (''MSFT'', py_float 100), (''AAPL'', py_float 101)] ! Suc 0
      = py_float 0.3 * py_float 101
        + (1 - py_float 0.3)
          * (predictions_of ''AAPL'' (new_predictor (py_float 0.3))
               [(''AAPL'', py_float 100.42), (''MSFT'', py_float 100), (''AAPL'', py_float 101)] ! 0)
   \<and> predictions_of ''AAPL'' (new_predictor (py_float 0.3))
        [(''AAPL'', py_float 100.42), (''MSFT'', py_float 100), (''AAPL'', py_float 101)] ! 0
      = py_float 0.3 * py_float 100.42 + (1 - py_float 0.3) * py_float 100.42"
  using ewma_correct [of "''AAPL''"
      "[(''AAPL'', py_float 100.42), (''MSFT'', py_float 100), (''AAPL'', py_float 101)]"
      "py_float 0.3"]
  by (simp add: values_of_def)

text \<open>
  Claim C2, as stated, fails in the arithmetic the code runs in. With \<open>alpha = 0.3\<close> and
  the prices 100.42 and 101, the first prediction is the float 100.41999999999999, not
  the first price, so the second prediction, 100.59399999999998, is not
  \<open>alpha * p2 + (1 - alpha) * p1\<close>, which is the float 100.594.
\<close>

theorem ewma_second_prediction_counterexample:
  "predictions_of ''AAPL'' (new_predictor (py_float 0.3))
     [(''AAPL'', py_float 100.42), (''AAPL'', py_float 101)] ! 1
   \<noteq> py_float 0.3 * py_float 101 + (1 - py_float 0.3) * py_float 100.42"
proof -
  have got: "predictions_of ''AAPL'' (new_predictor (py_float 0.3))
      [(''AAPL'', py_float 100.42), (''AAPL'', py_float 101)] ! 1
      = Finite (7078673451807931 / 70368744177664)"
    by (simp only: two_observations f64_alpha f64_p f64_101 f64_one_minus_alpha
        f64_t1 f64_t2 f64_e1 f64_u1 f64_u2 f64_e2 nth_Cons_Suc nth_Cons_0 One_nat_def)
  have claimed: "py_float 0.3 * py_float 101 + (1 - py_float 0.3) * py_float 100.42
      = Finite (1769668362951983 / 17592186044416)"
    by (simp only: f64_alpha f64_p f64_101 f64_one_minus_alpha f64_t2 f64_u1 f64_claimed)
  show ?thesis
    unfolding got claimed by simp
qed





section \<open>Properties of the HTTP handlers\<close>

lemma coerce_valid: "ValidString s \<Longrightarrow> coerce_utf8 s = s"
proof (induction s rule: coerce_utf8.induct)
  case 1
  show ?case by simp
next
  case (2 c cs)
  from "2.prems" obtain n where n: "DecodeRuneInString_size (c # cs) = Some n"
    and v: "ValidString (drop n (c # cs))"
    by (auto split: option.splits)
  from "2.IH"(2) [OF n v] n show ?case
    by (simp del: DecodeRuneInString_size.simps)
qed

lemma ascii_valid: "\<forall>c \<in> set s. (of_char c :: nat) < 0x80 \<Longrightarrow> ValidString s"
  by (induction s) (simp_all add: Let_def)

lemma coerce_placeholders:
  "coerce_utf8 ''Sample Stock'' = ''Sample Stock''" "coerce_utf8 ''1B'' = ''1B''"
  by (rule coerce_valid, rule ascii_valid, simp)+

text \<open>
  Claim C9, amended (GetStock). For every request whose path parameter \<open>symbol\<close> is
  \<open>symb\<close>, whatever the symbol, \<open>GetStock\<close> answers on a writer that has sent no status
  yet with status 200 and content type \<open>application/json\<close>, and writes exactly one JSON
  object. Its field \<open>symbol\<close> is the path parameter coerced to valid UTF-8, every byte
  that is not part of a well-formed sequence replaced by U+FFFD; so it is the path
  parameter as it came when that is valid UTF-8. Its other fields are the placeholders:
  name "Sample Stock", price 100.50, change 1.25, volume 1000000, market_cap "1B",
  pe_ratio 15.5. The object has no other field. There is no branch that rejects a
  symbol.
\<close>

theorem GetStock_placeholder:
  assumes "Vars r ''symbol'' = Some symb"
    and "status w = None"
  shows "status (GetStock w r) = Some 200
    \<and> sent_header (GetStock w r) ''Content-Type'' = Some [''application/json'']
    \<and> (\<exists>stock. Body (GetStock w r) = Body w @ [stock]
          \<and> stock ''symbol'' = Some (JString (coerce_utf8 symb))
          \<and> (ValidString symb \<longrightarrow> stock ''symbol'' = Some (JString symb))
          \<and> stock ''name'' = Some (JString ''Sample Stock'')
          \<and> stock ''price'' = Some (JFloat 100.50)
          \<and> stock ''change'' = Some (JFloat 1.25)
          \<and> stock ''volume'' = Some (JInt 1000000)
          \<and> stock ''market_cap'' = Some (JString ''1B'')
          \<and> stock ''pe_ratio'' = Some (JFloat 15.5)
          \<and> dom stock = {''symbol'', ''name'', ''price'', ''change'', ''volume'',
                ''market_cap'', ''pe_ratio''})"
proof -
  let ?stock = "[''symbol'' \<mapsto> JString symb,
                 ''name'' \<mapsto> JString ''Sample Stock'',
                 ''price'' \<mapsto> JFloat 100.50,
                 ''change'' \<mapsto> JFloat 1.25,
                 ''volume'' \<mapsto> JInt 1000000,
                 ''market_cap'' \<mapsto> JString ''1B'',
                 ''pe_ratio'' \<mapsto> JFloat 15.5]"
  let ?sent = "\<lambda>k. map_option encoded (?stock k)"
  let ?w1 = "Header_Set ''Content-Type'' ''application/json'' w"
  have run: "GetStock w r = Encode ?stock ?w1"
    using assms(1) by (simp add: GetStock_def Let_def)
  have st: "status (Encode ?stock ?w1) = Some 200"
    using assms(2) by (simp add: Encode_def WriteHeader_def Header_Set_def StatusOK_def Let_def)
  have hd: "sent_header (Encode ?stock ?w1) ''Content-Type'' = Some [''application/json'']"
    using assms(2) by (simp add: Encode_def WriteHeader_def Header_Set_def Let_def)
  have bd: "Body (Encode ?stock ?w1) = Body w @ [?sent]"
    using assms(2) by (simp add: Encode_def WriteHeader_def Header_Set_def Let_def)
  have symbol: "?sent ''symbol'' = Some (JString (coerce_utf8 symb))"
    by simp
  have verbatim: "ValidString symb \<longrightarrow> ?sent ''symbol'' = Some (JString symb)"
    by (simp add: coerce_valid)
  have fields: "?sent ''name'' = Some (JString ''Sample Stock'')
      \<and> ?sent ''price'' = Some (JFloat 100.50)
      \<and> ?sent ''change'' = Some (JFloat 1.25)
      \<and> ?sent ''volume'' = Some (JInt 1000000)
      \<and> ?sent ''market_cap'' = Some (JString ''1B'')
      \<and> ?sent ''pe_ratio'' = Some (JFloat 15.5)"
    by (simp add: coerce_placeholders del: coerce_utf8.simps)
  have "dom ?sent = dom ?stock"
    by (simp only: dom_map_option_comp [unfolded comp_def])
  then have keys: "dom ?sent = {''symbol'', ''name'', ''price'', ''change'', ''volume'',
      ''market_cap'', ''pe_ratio''}"
    by (simp add: insert_commute)
  show ?thesis
    unfolding run using st hd bd symbol verbatim fields keys by blast
qed

theorem GetStock_placeholder_witness:
  "Vars \<lparr>Method = ''GET'', Vars = [''symbol'' \<mapsto> ''NO-SUCH-STOCK'']\<rparr> ''symbol'' = Some ''NO-SUCH-STOCK''
   \<and> status new_writer = None
   \<and> ValidString ''NO-SUCH-STOCK''
   \<and> status (GetStock new_writer \<lparr>Method = ''GET'', Vars = [''symbol'' \<mapsto> ''NO-SUCH-STOCK'']\<rparr>) = Some 200
   \<and> (\<exists>stock. Body (GetStock new_writer \<lparr>Method = ''GET'', Vars = [''symbol'' \<mapsto> ''NO-SUCH-STOCK'']\<rparr>) = [stock]
         \<and> stock ''symbol'' = Some (JString ''NO-SUCH-STOCK'')
         \<and> stock ''price'' = Some (JFloat 100.50))"
proof -
  have v: "ValidString ''NO-SUCH-STOCK''"
    by (rule ascii_valid) simp
  from GetStock_placeholder
    [of "\<lparr>Method = ''GET'', Vars = [''symbol'' \<mapsto> ''NO-SUCH-STOCK'']\<rparr>" "''NO-SUCH-STOCK''" new_writer]
    v
  show ?thesis
    by (auto simp add: new_writer_def simp del: ValidString.simps coerce_utf8.simps)
qed

text \<open>
  Claim C9, as stated, fails for a path parameter that is not valid UTF-8. The request
  path \<^verbatim>\<open>/api/v1/market/stocks/%FF\<close> gives the one-byte parameter FF; the object
  written has the symbol U+FFFD (the bytes EF BF BD), not the parameter.
\<close>

theorem GetStock_symbol_not_verbatim_counterexample:
  "map (\<lambda>stock. stock ''symbol'')
      (Body (GetStock new_writer \<lparr>Method = ''GET'', Vars = [''symbol'' \<mapsto> [CHR 0xFF]]\<rparr>))
     = [Some (JString [CHR 0xEF, CHR 0xBF, CHR 0xBD])]
   \<and> map (\<lambda>stock. stock ''symbol'')
      (Body (GetStock new_writer \<lparr>Method = ''GET'', Vars = [''symbol'' \<mapsto> [CHR 0xFF]]\<rparr>))
     \<noteq> [Some (JString [CHR 0xFF])]"
  by (simp add: GetStock_def Encode_def WriteHeader_def Header_Set_def StatusOK_def
      new_writer_def RuneError_def Let_def)

text \<open>
  Claim C10 (CORS middleware). On a writer that has sent no status yet, for every request
  \<open>corsMiddleware\<close> first sets the header \<open>Access-Control-Allow-Origin\<close> to \<open>*\<close> on the
  writer, and only then either answers or hands that writer to the wrapped handler. When
  the method is \<open>OPTIONS\<close> the answer is status 200, sent with that header, and it is the
  same for every wrapped handler, which therefore is not run: nothing is written to the
  body. For any other method the result is the wrapped handler's, run on the writer that
  carries the header.
\<close>

theorem corsMiddleware_options_and_origin:
  assumes "status w = None"
  shows "\<exists>w1. Header w1 ''Access-Control-Allow-Origin'' = Some [''*'']
      \<and> status w1 = None \<and> Body w1 = Body w
      \<and> (\<forall>next. corsMiddleware next w r =
            (if Method r = ''OPTIONS'' then WriteHeader 200 w1 else next w1 r))
      \<and> status (WriteHeader 200 w1) = Some 200
      \<and> sent_header (WriteHeader 200 w1) ''Access-Control-Allow-Origin'' = Some [''*'']
      \<and> Body (WriteHeader 200 w1) = Body w"
proof -
  define w1 where "w1 =
    Header_Set ''Access-Control-Allow-Headers'' ''Origin, Content-Type, X-Auth-Token''
      (Header_Set ''Access-Control-Allow-Methods'' ''GET, POST, PUT, DELETE, OPTIONS''
        (Header_Set ''Access-Control-Allow-Origin'' ''*'' w))"
  have h: "Header w1 ''Access-Control-Allow-Origin'' = Some [''*'']"
    by (simp add: w1_def Header_Set_def)
  have s: "status w1 = None" and b: "Body w1 = Body w"
    using assms by (simp_all add: w1_def Header_Set_def)
  have run: "\<forall>next. corsMiddleware next w r =
      (if Method r = ''OPTIONS'' then WriteHeader 200 w1 else next w1 r)"
    by (simp add: corsMiddleware_def w1_def StatusOK_def Let_def)
  have ws: "status (WriteHeader 200 w1) = Some 200"
    using s by (simp add: WriteHeader_def)
  have wh: "sent_header (WriteHeader 200 w1) ''Access-Control-Allow-Origin'' = Some [''*'']"
    using s h by (simp add: WriteHeader_def)
  have wb: "Body (WriteHeader 200 w1) = Body w"
    using s b by (simp add: WriteHeader_def)
  from h s b run ws wh wb show ?thesis by blast
qed

theorem corsMiddleware_options_and_origin_witness:
  "status new_writer = None
   \<and> status (corsMiddleware GetStock new_writer \<lparr>Method = ''OPTIONS'', Vars = [''symbol'' \<mapsto> ''AAPL'']\<rparr>) = Some 200
   \<and> sent_header (corsMiddleware GetStock new_writer \<lparr>Method = ''OPTIONS'', Vars = [''symbol'' \<mapsto> ''AAPL'']\<rparr>)
        ''Access-Control-Allow-Origin'' = Some [''*'']
   \<and> Body (corsMiddleware GetStock new_writer \<lparr>Method = ''OPTIONS'', Vars = [''symbol'' \<mapsto> ''AAPL'']\<rparr>) = []"
proof -
  have fresh: "status new_writer = None" by (simp add: new_writer_def)
  from corsMiddleware_options_and_origin [OF fresh,
      of "\<lparr>Method = ''OPTIONS'', Vars = [''symbol'' \<mapsto> ''AAPL'']\<rparr>"]
  obtain w1 where
    run: "\<forall>next. corsMiddleware next new_writer \<lparr>Method = ''OPTIONS'', Vars = [''symbol'' \<mapsto> ''AAPL'']\<rparr> =
      (if Method \<lparr>Method = ''OPTIONS'', Vars = [''symbol'' \<mapsto> ''AAPL'']\<rparr> = ''OPTIONS''
       then WriteHeader 200 w1
       else next w1 \<lparr>Method = ''OPTIONS'', Vars = [''symbol'' \<mapsto> ''AAPL'']\<rparr>)"
    and ws: "status (WriteHeader 200 w1) = Some 200"
    and wh: "sent_header (WriteHeader 200 w1) ''Access-Control-Allow-Origin'' = Some [''*'']"
    and wb: "Body (WriteHeader 200 w1) = Body new_writer"
    by blast
  have "corsMiddleware GetStock new_writer \<lparr>Method = ''OPTIONS'', Vars = [''symbol'' \<mapsto> ''AAPL'']\<rparr>
      = WriteHeader 200 w1"
    using run by simp
  with fresh ws wh wb show ?thesis by (simp add: new_writer_def)
qed


section \<open>Properties of the outbound queue\<close>









section \<open>Properties of the registry\<close>

lemma consistent_new_hub: "registry_consistent (new_hub a h)"
  by (simp add: registry_consistent_def new_hub_def)

lemma consistent_subscribe:
  "registry_consistent hub \<Longrightarrow> registry_consistent (onClientSubscribe hub sid symb)"
  by (auto simp add: registry_consistent_def onClientSubscribe_def addInterest_def)

lemma consistent_unsubscribe:
  "registry_consistent hub \<Longrightarrow> registry_consistent (onClientUnsubscribe hub sid symb)"
  by (auto simp add: registry_consistent_def onClientUnsubscribe_def removeInterest_def)

lemma consistent_unsubscribe_all:
  "registry_consistent hub \<Longrightarrow>
     registry_consistent (fold (\<lambda>symb h. onClientUnsubscribe h sid symb) xs hub)"
  by (induction xs arbitrary: hub) (simp_all add: consistent_unsubscribe)

lemma consistent_closed:
  "registry_consistent hub \<Longrightarrow> registry_consistent (onSessionClosed hub sid)"
  by (simp add: onSessionClosed_def consistent_unsubscribe_all)

lemma consistent_tick:
  "registry_consistent hub \<Longrightarrow> registry_consistent (onUpstreamTick hub tk)"
  by (simp add: registry_consistent_def onUpstreamTick_def split: prod.splits)

lemma consistent_step:
  "registry_consistent hub \<Longrightarrow> registry_consistent (hub_step hub ev)"
  by (cases ev) (simp_all add: consistent_subscribe consistent_unsubscribe consistent_closed consistent_tick)

lemma consistent_run:
  "registry_consistent hub \<Longrightarrow> registry_consistent (hub_run hub evs)"
  unfolding hub_run_def
  by (induction evs arbitrary: hub) (simp_all add: consistent_step)

lemma unsubscribe_all_symbols:
  "session_symbols (fold (\<lambda>symb h. onClientUnsubscribe h sid symb) xs hub) sid
     = filter (\<lambda>s. s \<notin> set xs) (session_symbols hub sid)"
proof (induction xs arbitrary: hub)
  case Nil
  show ?case by simp
next
  case (Cons x xs)
  have "session_symbols (onClientUnsubscribe hub sid x) sid = removeAll x (session_symbols hub sid)"
    by (simp add: onClientUnsubscribe_def split: prod.splits)
  with Cons.IH [of "onClientUnsubscribe hub sid x"] show ?case
    by (auto simp add: removeAll_filter_not_eq intro: filter_cong)
qed

lemma closed_no_symbols: "session_symbols (onSessionClosed hub sid) sid = []"
  by (simp add: onSessionClosed_def unsubscribe_all_symbols)

lemma symbols_subscribe:
  "set (session_symbols (onClientSubscribe hub sid symb) sid') =
     (if sid' = sid then insert symb (set (session_symbols hub sid))
      else set (session_symbols hub sid'))"
  by (simp add: onClientSubscribe_def split: prod.splits)

lemma symbols_unsubscribe:
  "set (session_symbols (onClientUnsubscribe hub sid symb) sid') =
     (if sid' = sid then set (session_symbols hub sid) - {symb}
      else set (session_symbols hub sid'))"
  by (simp add: onClientUnsubscribe_def split: prod.splits)

lemma unsubscribe_all_others:
  "sid' \<noteq> sid \<Longrightarrow>
     session_symbols (fold (\<lambda>symb h. onClientUnsubscribe h sid symb) xs hub) sid'
       = session_symbols hub sid'"
proof (induction xs arbitrary: hub)
  case Nil
  show ?case by simp
next
  case (Cons x xs)
  have "session_symbols (onClientUnsubscribe hub sid x) sid' = session_symbols hub sid'"
    using Cons.prems by (simp add: onClientUnsubscribe_def split: prod.splits)
  with Cons.IH [OF Cons.prems, of "onClientUnsubscribe hub sid x"] show ?case
    by simp
qed

lemma symbols_closed:
  "set (session_symbols (onSessionClosed hub sid) sid') =
     (if sid' = sid then {} else set (session_symbols hub sid'))"
  by (simp add: closed_no_symbols) (simp add: onSessionClosed_def unsubscribe_all_others)

lemma symbols_tick:
  "session_symbols (onUpstreamTick hub tk) = session_symbols hub"
  by (simp add: onUpstreamTick_def Let_def split: prod.splits)

lemma interest_of_snoc: "interest_of (evs @ [ev]) = interest_step (interest_of evs) ev"
  by (simp add: interest_of_def)

lemma hub_run_snoc: "hub_run hub (evs @ [ev]) = hub_step (hub_run hub evs) ev"
  by (simp add: hub_run_def)

lemma symbols_follow_calls:
  "set (session_symbols (hub_run (new_hub a h) evs) sid) = interest_of evs sid"
proof (induction evs arbitrary: sid rule: rev_induct)
  case Nil
  show ?case by (simp add: hub_run_def interest_of_def new_hub_def)
next
  case (snoc ev evs)
  show ?case
  proof (cases ev)
    case (ClientSubscribe s symb)
    with snoc show ?thesis
      by (simp add: hub_run_snoc interest_of_snoc symbols_subscribe)
  next
    case (ClientUnsubscribe s symb)
    with snoc show ?thesis
      by (simp add: hub_run_snoc interest_of_snoc symbols_unsubscribe)
  next
    case (SessionClosed s)
    with snoc show ?thesis
      by (simp add: hub_run_snoc interest_of_snoc symbols_closed)
  next
    case (UpstreamTick tk)
    with snoc show ?thesis
      by (simp add: hub_run_snoc interest_of_snoc symbols_tick)
  qed
qed

text \<open>
  Claim C1 (reference-count invariant of the registry). Start from a new hub and run any
  finite sequence of events: subscribe and unsubscribe requests of any sessions, session
  teardowns and upstream ticks, in any order. In the state reached (so after each step,
  every prefix of a sequence being a sequence), a symbol is subscribed upstream if and
  only if at least one session currently holds interest in it, where the interest a
  session holds is read off the calls made so far: it subscribed to the symbol and has
  neither unsubscribed from it nor been torn down since. The registry and the session's
  own symbol set say the same.
\<close>

theorem registry_refcount_invariant:
  "(symb \<in> upstream (hub_run (new_hub a h) evs)) = (\<exists>sid. symb \<in> interest_of evs sid)
   \<and> (sid \<in> consumersFor (subscribers (hub_run (new_hub a h) evs)) symb)
        = (symb \<in> interest_of evs sid)
   \<and> set (session_symbols (hub_run (new_hub a h) evs) sid) = interest_of evs sid"
proof -
  let ?H = "hub_run (new_hub a h) evs"
  have c: "registry_consistent ?H"
    by (simp add: consistent_run consistent_new_hub)
  have s: "\<And>sid. set (session_symbols ?H sid) = interest_of evs sid"
    by (rule symbols_follow_calls)
  have r: "\<And>sid. (sid \<in> subscribers ?H symb) = (symb \<in> interest_of evs sid)"
    using c s by (simp add: registry_consistent_def)
  have "(symb \<in> upstream ?H) = (subscribers ?H symb \<noteq> {})"
    using c by (simp add: registry_consistent_def)
  also have "\<dots> = (\<exists>sid. sid \<in> subscribers ?H symb)"
    by auto
  also have "\<dots> = (\<exists>sid. symb \<in> interest_of evs sid)"
    using r by simp
  finally have 1: "(symb \<in> upstream ?H) = (\<exists>sid. symb \<in> interest_of evs sid)" .
  from 1 r [of sid] s [of sid] show ?thesis
    by (simp add: consumersFor_def)
qed

text \<open>
  The scenario of the design: sessions 1 and 2 subscribe to MSFT and session 2
  disconnects; MSFT stays subscribed upstream. Only after session 1 unsubscribes as well
  is it unsubscribed upstream.
\<close>

lemma msft_scenario:
  "''MSFT'' \<in> upstream (hub_run (new_hub (0.3 :: real) 60)
      [ClientSubscribe 1 ''MSFT'', ClientSubscribe 2 ''MSFT'', SessionClosed 2])
   \<and> ''MSFT'' \<notin> upstream (hub_run (new_hub (0.3 :: real) 60)
      [ClientSubscribe 1 ''MSFT'', ClientSubscribe 2 ''MSFT'', SessionClosed 2,
       ClientUnsubscribe 1 ''MSFT''])"
  by (simp add: hub_run_def new_hub_def onClientSubscribe_def onClientUnsubscribe_def
      onSessionClosed_def addInterest_def removeInterest_def)


section \<open>Properties of tick delivery\<close>

lemma tick_times_append:
  "tick_times symb (xs @ ys) = tick_times symb xs @ tick_times symb ys"
  by (induction symb xs rule: tick_times.induct) simp_all

lemma tick_times_filter:
  "tick_times symb ms = map (\<lambda>m. case m of TickMsg s p ts \<Rightarrow> ts | _ \<Rightarrow> 0)
      (filter (\<lambda>m. case m of TickMsg s p ts \<Rightarrow> s = symb | _ \<Rightarrow> False) ms)"
  by (induction symb ms rule: tick_times.induct) simp_all

lemma subseq_tick_times:
  "subseq xs ys \<Longrightarrow> subseq (tick_times symb xs) (tick_times symb ys)"
  by (simp add: tick_times_filter subseq_map)

lemma sorted_wrt_of_subseq:
  "subseq xs ys \<Longrightarrow> sorted_wrt P ys \<Longrightarrow> sorted_wrt P xs"
proof (induction rule: list_emb.induct)
  case (list_emb_Nil ys)
  show ?case by simp
next
  case (list_emb_Cons xs ys y)
  then show ?case by simp
next
  case (list_emb_Cons2 x y xs ys)
  then have "set xs \<subseteq> set ys" by (auto dest: subseq_order.dual_order.trans set_mono_sublist list_emb_set)
  with list_emb_Cons2 show ?case by auto
qed

lemma outbound_subscribe [simp]:
  "outbound (onClientSubscribe hub sid symb) = outbound hub"
  "last_ts (onClientSubscribe hub sid symb) = last_ts hub"
  by (simp_all add: onClientSubscribe_def split: prod.splits)

lemma outbound_unsubscribe [simp]:
  "outbound (onClientUnsubscribe hub sid symb) = outbound hub"
  "last_ts (onClientUnsubscribe hub sid symb) = last_ts hub"
  by (simp_all add: onClientUnsubscribe_def split: prod.splits)

lemma outbound_unsubscribe_all:
  "outbound (fold (\<lambda>symb h. onClientUnsubscribe h sid symb) xs hub) = outbound hub
   \<and> last_ts (fold (\<lambda>symb h. onClientUnsubscribe h sid symb) xs hub) = last_ts hub"
  by (induction xs arbitrary: hub) simp_all

lemma increasing_unchanged:
  "outbound hub' = outbound hub \<Longrightarrow> last_ts hub' = last_ts hub \<Longrightarrow>
     ticks_increasing hub \<Longrightarrow> ticks_increasing hub'"
  by (simp add: ticks_increasing_def)

lemma stale_discarded: "stale hub tk \<Longrightarrow> onUpstreamTick hub tk = hub"
  by (simp add: onUpstreamTick_def)

lemma tick_times_after_tick:
  "\<not> stale hub tk \<Longrightarrow>
     tick_times symb (outbound (onUpstreamTick hub tk) sid) =
       tick_times symb (outbound hub sid) @
         (if sid \<in> subscribers hub (tick_symbol tk) \<and> tick_symbol tk = symb
          then [tick_ts tk] else [])"
  by (auto simp add: onUpstreamTick_def consumersFor_def tick_times_append Let_def
      split: prod.splits option.splits)

lemma last_ts_tick:
  "\<not> stale hub tk \<Longrightarrow>
     last_ts (onUpstreamTick hub tk) = (last_ts hub)(tick_symbol tk \<mapsto> tick_ts tk)"
  by (simp add: onUpstreamTick_def Let_def split: prod.splits)

lemma increasing_tick:
  assumes "ticks_increasing hub"
  shows "ticks_increasing (onUpstreamTick hub tk)"
proof (cases "stale hub tk")
  case True
  with assms show ?thesis by (simp add: stale_discarded)
next
  case False
  have newer: "\<And>l. last_ts hub (tick_symbol tk) = Some l \<Longrightarrow> l < tick_ts tk"
    using False by (simp add: stale_def)
  show ?thesis
    unfolding ticks_increasing_def
  proof (intro allI conjI ballI)
    fix sid symb
    have old: "sorted_wrt (<) (tick_times symb (outbound hub sid))"
      and bound: "\<forall>t \<in> set (tick_times symb (outbound hub sid)).
          case last_ts hub symb of None \<Rightarrow> False | Some l \<Rightarrow> t \<le> l"
      using assms by (simp_all add: ticks_increasing_def)
    show "sorted_wrt (<) (tick_times symb (outbound (onUpstreamTick hub tk) sid))"
    proof (cases "sid \<in> subscribers hub (tick_symbol tk) \<and> tick_symbol tk = symb")
      case True
      have "\<forall>t \<in> set (tick_times symb (outbound hub sid)). t < tick_ts tk"
        using bound newer True by (fastforce split: option.splits)
      with old True show ?thesis
        by (simp add: tick_times_after_tick [OF False] sorted_wrt_append)
    next
      case False2: False
      with old show ?thesis
        by (auto simp add: tick_times_after_tick [OF False])
    qed
  next
    fix sid symb t
    assume t: "t \<in> set (tick_times symb (outbound (onUpstreamTick hub tk) sid))"
    have bound: "\<forall>t \<in> set (tick_times symb (outbound hub sid)).
          case last_ts hub symb of None \<Rightarrow> False | Some l \<Rightarrow> t \<le> l"
      using assms by (simp add: ticks_increasing_def)
    show "case last_ts (onUpstreamTick hub tk) symb of None \<Rightarrow> False | Some l \<Rightarrow> t \<le> l"
    proof (cases "tick_symbol tk = symb")
      case True
      from t have "t = tick_ts tk \<or> t \<in> set (tick_times symb (outbound hub sid))"
        by (auto simp add: tick_times_after_tick [OF False] split: if_splits)
      then show ?thesis
        using bound newer True
        by (fastforce simp add: last_ts_tick [OF False] split: option.splits)
    next
      case False3: False
      from t False3 have "t \<in> set (tick_times symb (outbound hub sid))"
        by (auto simp add: tick_times_after_tick [OF False] split: if_splits)
      then show ?thesis
        using bound False3 by (simp add: last_ts_tick [OF False])
    qed
  qed
qed

lemma increasing_step: "ticks_increasing hub \<Longrightarrow> ticks_increasing (hub_step hub ev)"
proof (cases ev)
  case (SessionClosed sid)
  assume "ticks_increasing hub"
  then show ?thesis
    using outbound_unsubscribe_all [of sid "session_symbols hub sid" hub] SessionClosed
    by (simp add: onSessionClosed_def increasing_unchanged)
qed (simp_all add: increasing_unchanged increasing_tick)

lemma increasing_run: "ticks_increasing hub \<Longrightarrow> ticks_increasing (hub_run hub evs)"
  unfolding hub_run_def
  by (induction evs arbitrary: hub) (simp_all add: increasing_step)

lemma increasing_new_hub: "ticks_increasing (new_hub a h)"
  by (simp add: ticks_increasing_def new_hub_def)

text \<open>
  Claim C4 (stale ticks are suppressed). Start from a new hub and run any finite sequence
  of events. Whatever a session receives of the messages enqueued for it, in their order
  (all of them, or what is left after later stages have dropped some), the timestamps of
  its tick messages for a symbol increase strictly: no tick is delivered out of order or
  twice. A tick whose timestamp is not strictly greater than the last one let through
  for its symbol is discarded: the hub stays as it was, so no session receives it.
\<close>

theorem stale_ticks_suppressed:
  assumes "subseq received (outbound (hub_run (new_hub a h) evs) sid)"
  shows "sorted_wrt (<) (tick_times symb received)
    \<and> (\<forall>tk. stale (hub_run (new_hub a h) evs) tk \<longrightarrow>
          hub_run (new_hub a h) (evs @ [UpstreamTick tk]) = hub_run (new_hub a h) evs)"
proof -
  let ?H = "hub_run (new_hub a h) evs"
  have "ticks_increasing ?H"
    by (simp add: increasing_run increasing_new_hub)
  then have "sorted_wrt (<) (tick_times symb (outbound ?H sid))"
    by (simp add: ticks_increasing_def)
  with subseq_tick_times [OF assms, of symb]
  have 1: "sorted_wrt (<) (tick_times symb received)"
    by (rule sorted_wrt_of_subseq)
  have 2: "\<forall>tk. stale ?H tk \<longrightarrow> hub_run (new_hub a h) (evs @ [UpstreamTick tk]) = ?H"
    by (simp add: hub_run_def stale_discarded)
  from 1 2 show ?thesis by blast
qed

theorem stale_ticks_suppressed_witness:
  "subseq [TickMsg ''AAPL'' (py_float 100) 1, TickMsg ''AAPL'' (py_float 102) 2]
     (outbound (hub_run (new_hub (py_float 0.3) 60)
        [ClientSubscribe 7 ''AAPL'',
         UpstreamTick \<lparr>tick_symbol = ''AAPL'', tick_price = py_float 100, tick_ts = 1\<rparr>,
         UpstreamTick \<lparr>tick_symbol = ''AAPL'', tick_price = py_float 101, tick_ts = 1\<rparr>,
         UpstreamTick \<lparr>tick_symbol = ''AAPL'', tick_price = py_float 102, tick_ts = 2\<rparr>,
         UpstreamTick \<lparr>tick_symbol = ''AAPL'', tick_price = py_float 99, tick_ts = 0\<rparr>]) 7)
   \<and> sorted_wrt (<) (tick_times ''AAPL''
        [TickMsg ''AAPL'' (py_float 100) 1, TickMsg ''AAPL'' (py_float 102) 2])
   \<and> tick_times ''AAPL'' (outbound (hub_run (new_hub (py_float 0.3) 60)
        [ClientSubscribe 7 ''AAPL'',
         UpstreamTick \<lparr>tick_symbol = ''AAPL'', tick_price = py_float 100, tick_ts = 1\<rparr>,
         UpstreamTick \<lparr>tick_symbol = ''AAPL'', tick_price = py_float 101, tick_ts = 1\<rparr>,
         UpstreamTick \<lparr>tick_symbol = ''AAPL'', tick_price = py_float 102, tick_ts = 2\<rparr>,
         UpstreamTick \<lparr>tick_symbol = ''AAPL'', tick_price = py_float 99, tick_ts = 0\<rparr>]) 7) = [1, 2]
   \<and> stale (hub_run (new_hub (py_float 0.3) 60)
        [ClientSubscribe 7 ''AAPL'',
         UpstreamTick \<lparr>tick_symbol = ''AAPL'', tick_price = py_float 100, tick_ts = 1\<rparr>,
         UpstreamTick \<lparr>tick_symbol = ''AAPL'', tick_price = py_float 101, tick_ts = 1\<rparr>,
         UpstreamTick \<lparr>tick_symbol = ''AAPL'', tick_price = py_float 102, tick_ts = 2\<rparr>,
         UpstreamTick \<lparr>tick_symbol = ''AAPL'', tick_price = py_float 99, tick_ts = 0\<rparr>])
        \<lparr>tick_symbol = ''AAPL'', tick_price = py_float 103, tick_ts = 2\<rparr>
   \<and> hub_run (new_hub (py_float 0.3) 60)
        ([ClientSubscribe 7 ''AAPL'',
         UpstreamTick \<lparr>tick_symbol = ''AAPL'', tick_price = py_float 100, tick_ts = 1\<rparr>,
         UpstreamTick \<lparr>tick_symbol = ''AAPL'', tick_price = py_float 101, tick_ts = 1\<rparr>,
         UpstreamTick \<lparr>tick_symbol = ''AAPL'', tick_price = py_float 102, tick_ts = 2\<rparr>,
         UpstreamTick \<lparr>tick_symbol = ''AAPL'', tick_price = py_float 99, tick_ts = 0\<rparr>]
         @ [UpstreamTick \<lparr>tick_symbol = ''AAPL'', tick_price = py_float 103, tick_ts = 2\<rparr>])
      = hub_run (new_hub (py_float 0.3) 60)
        [ClientSubscribe 7 ''AAPL'',
         UpstreamTick \<lparr>tick_symbol = ''AAPL'', tick_price = py_float 100, tick_ts = 1\<rparr>,
         UpstreamTick \<lparr>tick_symbol = ''AAPL'', tick_price = py_float 101, tick_ts = 1\<rparr>,
         UpstreamTick \<lparr>tick_symbol = ''AAPL'', tick_price = py_float 102, tick_ts = 2\<rparr>,
         UpstreamTick \<lparr>tick_symbol = ''AAPL'', tick_price = py_float 99, tick_ts = 0\<rparr>]"
proof -
  let ?evs = "[ClientSubscribe 7 ''AAPL'',
         UpstreamTick \<lparr>tick_symbol = ''AAPL'', tick_price = py_float 100, tick_ts = 1\<rparr>,
         UpstreamTick \<lparr>tick_symbol = ''AAPL'', tick_price = py_float 101, tick_ts = 1\<rparr>,
         UpstreamTick \<lparr>tick_symbol = ''AAPL'', tick_price = py_float 102, tick_ts = 2\<rparr>,
         UpstreamTick \<lparr>tick_symbol = ''AAPL'', tick_price = py_float 99, tick_ts = 0\<rparr>]"
  have out: "outbound (hub_run (new_hub (py_float 0.3) 60) ?evs) 7
      = [TickMsg ''AAPL'' (py_float 100) 1, TickMsg ''AAPL'' (py_float 102) 2,
         PredictionMsg ''AAPL''
           (py_float 0.3 * py_float 102
            + (1 - py_float 0.3) * (py_float 0.3 * py_float 100 + (1 - py_float 0.3) * py_float 100))
           60 2]"
    by (simp add: hub_run_def new_hub_def onClientSubscribe_def onUpstreamTick_def stale_def
        observe_def update_and_predict_def new_predictor_def Let_def
        addInterest_def consumersFor_def)
  have sub: "subseq [TickMsg ''AAPL'' (py_float 100) 1, TickMsg ''AAPL'' (py_float 102) 2]
      (outbound (hub_run (new_hub (py_float 0.3) 60) ?evs) 7)"
    unfolding out by simp
  have times: "tick_times ''AAPL'' (outbound (hub_run (new_hub (py_float 0.3) 60) ?evs) 7) = [1, 2]"
    unfolding out by simp
  have st: "stale (hub_run (new_hub (py_float 0.3) 60) ?evs)
      \<lparr>tick_symbol = ''AAPL'', tick_price = py_float 103, tick_ts = 2\<rparr>"
    by (simp add: hub_run_def new_hub_def onClientSubscribe_def onUpstreamTick_def stale_def
        observe_def update_and_predict_def new_predictor_def Let_def
        addInterest_def consumersFor_def)
  from stale_ticks_suppressed [OF sub, of "''AAPL''"] sub times st show ?thesis
    by blast
qed

end
